theory Spec2Isabelle
  imports Main
begin

section \<open>Values exchanged over HTTP\<close>

text \<open>
  A JSON value as Python's \<^verbatim>\<open>json\<close> module reads it. A number with a fraction or an
  exponent is kept as its literal text: no property below depends on its value.
\<close>

datatype json =
    JNull
  | JBool bool
  | JInt int
  | JFloat string
  | JStr string
  | JArray "json list"
  | JObject "(string \<times> json) list"

text \<open>A JSON object read into a Python dict: of two equal keys the later one wins.\<close>

definition dict_of :: "(string \<times> json) list \<Rightarrow> (string \<rightharpoonup> json)" where
  "dict_of kvs = map_of (rev kvs)"

text \<open>A reading of the clock (\<^verbatim>\<open>datetime.utcnow()\<close>), in microseconds.\<close>

type_synonym datetime = int

text \<open>
  The ways a request fails: an \<^verbatim>\<open>HTTPException\<close> raised by a handler (status code
  and detail), the framework's rejection of a request body that does not fit the
  declared model (status 422), and an exception that no handler catches (status 500).
\<close>

datatype error =
    HTTPException nat string
  | RequestValidationError
  | InternalServerError

text \<open>
  What the program takes from its libraries and does not fix itself: how the model
  validator coerces a value of another JSON type into a \<^verbatim>\<open>str\<close>, \<^verbatim>\<open>int\<close> or
  \<^verbatim>\<open>bool\<close> field and how it reads a \<^verbatim>\<open>datetime\<close>, how a datetime is rendered by
  \<^verbatim>\<open>isoformat()\<close>, and the row id that the database engine draws at random once the
  largest row id is in use.
\<close>

record library =
  str_coerce :: "json \<Rightarrow> string option"
  int_coerce :: "json \<Rightarrow> int option"
  bool_coerce :: "json \<Rightarrow> bool option"
  datetime_validator :: "json \<Rightarrow> datetime option"
  isoformat :: "datetime \<Rightarrow> string"
  random_rowid :: "int list \<Rightarrow> int option"

definition str_validator :: "library \<Rightarrow> json \<Rightarrow> string option" where
  "str_validator lib v = (case v of JStr s \<Rightarrow> Some s | _ \<Rightarrow> str_coerce lib v)"

definition int_validator :: "library \<Rightarrow> json \<Rightarrow> int option" where
  "int_validator lib v = (case v of JInt n \<Rightarrow> Some n | _ \<Rightarrow> int_coerce lib v)"

definition bool_validator :: "library \<Rightarrow> json \<Rightarrow> bool option" where
  "bool_validator lib v = (case v of JBool b \<Rightarrow> Some b | _ \<Rightarrow> bool_coerce lib v)"

text \<open>
  A field declared \<^verbatim>\<open>name: T\<close> is required: a missing key and a null are both
  rejected before the validator of \<^verbatim>\<open>T\<close> runs.
\<close>

definition required_field ::
  "(json \<Rightarrow> 'a option) \<Rightarrow> (string \<rightharpoonup> json) \<Rightarrow> string \<Rightarrow> error + 'a" where
  "required_field validator obj key =
     (case obj key of
        None \<Rightarrow> Inl RequestValidationError
      | Some v \<Rightarrow>
          if v = JNull then Inl RequestValidationError
          else (case validator v of
                  None \<Rightarrow> Inl RequestValidationError
                | Some x \<Rightarrow> Inr x))"

text \<open>
  A field declared \<^verbatim>\<open>name: Optional[T] = None\<close>. The result tells a key that
  was not sent (\<open>None\<close>, the field is unset and holds its default) from a key sent
  as null (\<open>Some None\<close>) and from a key sent with a value (\<open>Some (Some x)\<close>).
\<close>

definition optional_field ::
  "(json \<Rightarrow> 'a option) \<Rightarrow> (string \<rightharpoonup> json) \<Rightarrow> string \<Rightarrow> error + 'a option option" where
  "optional_field validator obj key =
     (case obj key of
        None \<Rightarrow> Inr None
      | Some v \<Rightarrow>
          if v = JNull then Inr (Some None)
          else (case validator v of
                  None \<Rightarrow> Inl RequestValidationError
                | Some x \<Rightarrow> Inr (Some (Some x))))"

section \<open>Subscription registry: data model\<close>

text \<open>
  A row of the table \<^verbatim>\<open>subscriptions\<close>. The column \<^verbatim>\<open>id\<close> is the field
  \<open>sub_id\<close>. \<^verbatim>\<open>notification_url\<close> is declared NOT NULL; \<^verbatim>\<open>event_type\<close> and
  \<^verbatim>\<open>is_active\<close> may hold NULL.
\<close>

record Subscription =
  sub_id :: int
  notification_url :: string
  event_type :: "string option"
  created_at :: datetime
  is_active :: "bool option"

record SubscriptionCreate =
  create_notification_url :: string
  create_event_type :: "string option"

text \<open>
  \<^verbatim>\<open>SubscriptionUpdate\<close> together with the set of fields the request supplied:
  \<open>None\<close> is a field that was not sent, \<open>Some None\<close> a field sent as null.
\<close>

record SubscriptionUpdate =
  update_notification_url :: "string option option"
  update_event_type :: "string option option"
  update_is_active :: "bool option option"

record SubscriptionResponse =
  resp_id :: int
  resp_notification_url :: string
  resp_event_type :: "string option"
  resp_created_at :: datetime
  resp_is_active :: bool

definition SubscriptionCreate_parse :: "library \<Rightarrow> json \<Rightarrow> error + SubscriptionCreate" where
  "SubscriptionCreate_parse lib body =
     (case body of
        JObject kvs \<Rightarrow>
          (case required_field (str_validator lib) (dict_of kvs) ''notification_url'' of
             Inl e \<Rightarrow> Inl e
           | Inr url \<Rightarrow>
               (case optional_field (str_validator lib) (dict_of kvs) ''event_type'' of
                  Inl e \<Rightarrow> Inl e
                | Inr et \<Rightarrow>
                    Inr \<lparr>create_notification_url = url,
                         create_event_type = (case et of None \<Rightarrow> None | Some v \<Rightarrow> v)\<rparr>))
      | _ \<Rightarrow> Inl RequestValidationError)"

definition SubscriptionUpdate_parse :: "library \<Rightarrow> json \<Rightarrow> error + SubscriptionUpdate" where
  "SubscriptionUpdate_parse lib body =
     (case body of
        JObject kvs \<Rightarrow>
          (case optional_field (str_validator lib) (dict_of kvs) ''notification_url'' of
             Inl e \<Rightarrow> Inl e
           | Inr url \<Rightarrow>
               (case optional_field (str_validator lib) (dict_of kvs) ''event_type'' of
                  Inl e \<Rightarrow> Inl e
                | Inr et \<Rightarrow>
                    (case optional_field (bool_validator lib) (dict_of kvs) ''is_active'' of
                       Inl e \<Rightarrow> Inl e
                     | Inr act \<Rightarrow>
                         Inr \<lparr>update_notification_url = url,
                              update_event_type = et,
                              update_is_active = act\<rparr>)))
      | _ \<Rightarrow> Inl RequestValidationError)"

text \<open>
  The response model reads a row into \<^verbatim>\<open>SubscriptionResponse\<close>, whose
  \<^verbatim>\<open>is_active: bool\<close> does not admit NULL: such a row makes the response fail
  after the handler has returned.
\<close>

definition response_model :: "Subscription \<Rightarrow> error + SubscriptionResponse" where
  "response_model s =
     (case is_active s of
        None \<Rightarrow> Inl InternalServerError
      | Some b \<Rightarrow>
          Inr \<lparr>resp_id = sub_id s,
               resp_notification_url = notification_url s,
               resp_event_type = event_type s,
               resp_created_at = created_at s,
               resp_is_active = b\<rparr>)"

fun response_model_list :: "Subscription list \<Rightarrow> error + SubscriptionResponse list" where
  "response_model_list [] = Inr []"
| "response_model_list (s # ss) =
     (case response_model s of
        Inl e \<Rightarrow> Inl e
      | Inr r \<Rightarrow>
          (case response_model_list ss of
             Inl e \<Rightarrow> Inl e
           | Inr rs \<Rightarrow> Inr (r # rs)))"

section \<open>Subscription registry: authentication\<close>

definition VALID_TOKEN :: string where
  "VALID_TOKEN = ''secret-token''"

text \<open>
  The three places a request can carry a credential: the raw value of the
  \<^verbatim>\<open>Authorization\<close> header, the header \<^verbatim>\<open>x-access-token\<close> and the query parameter
  \<^verbatim>\<open>plain_token\<close>; \<open>None\<close> where the request has none.
\<close>

record request =
  authorization :: "string option"
  x_access_token :: "string option"
  plain_token :: "string option"

record HTTPAuthorizationCredentials =
  scheme :: string
  credentials :: string

text \<open>
  \<^verbatim>\<open>str.lower()\<close> on the letters A to Z. The scheme is only compared with
  \<^verbatim>\<open>bearer\<close> after it, and no character outside A to Z is lowered to one of
  these letters in a header value.
\<close>

definition lower_char :: "char \<Rightarrow> char" where
  "lower_char c =
     (let n = (of_char c :: nat) in if 65 \<le> n \<and> n \<le> 90 then char_of (n + 32) else c)"

text \<open>
  \<^verbatim>\<open>HTTPBearer(auto_error=False)\<close>: the header value is cut at its first space into
  a scheme and the credentials; the result is \<^verbatim>\<open>None\<close> unless both are non-empty
  and the scheme is \<^verbatim>\<open>bearer\<close> in any letter case. The scheme is returned as it
  was sent.
\<close>

definition get_authorization_scheme_param :: "string option \<Rightarrow> string \<times> string" where
  "get_authorization_scheme_param authorization_header_value =
     (case authorization_header_value of
        None \<Rightarrow> ([], [])
      | Some v \<Rightarrow>
          if v = [] then ([], [])
          else (takeWhile (\<lambda>c. c \<noteq> CHR '' '') v, drop 1 (dropWhile (\<lambda>c. c \<noteq> CHR '' '') v)))"

definition http_bearer :: "string option \<Rightarrow> HTTPAuthorizationCredentials option" where
  "http_bearer header =
     (case get_authorization_scheme_param header of
        (sch, param) \<Rightarrow>
          if header = None \<or> header = Some [] \<or> sch = [] \<or> param = [] then None
          else if map lower_char sch \<noteq> ''bearer'' then None
          else Some \<lparr>scheme = sch, credentials = param\<rparr>)"

text \<open>Python's truth test of an \<^verbatim>\<open>Optional[str]\<close>: neither None nor empty.\<close>

definition truthy :: "string option \<Rightarrow> bool" where
  "truthy v = (v \<noteq> None \<and> v \<noteq> Some [])"

text \<open>
  \<^verbatim>\<open>authenticate\<close>, in its two halves: the choice of the token by the
  \<^verbatim>\<open>if/elif/elif\<close> chain, then its comparison with the secret.
\<close>

definition select_token :: "request \<Rightarrow> string option" where
  "select_token rq =
     (let creds = http_bearer (authorization rq) in
      if (case creds of None \<Rightarrow> False | Some c \<Rightarrow> scheme c = ''Bearer'')
      then map_option credentials creds
      else if truthy (x_access_token rq) then x_access_token rq
      else if truthy (plain_token rq) then plain_token rq
      else None)"

definition authenticate :: "request \<Rightarrow> error + string" where
  "authenticate rq =
     (case select_token rq of
        None \<Rightarrow> Inl (HTTPException 401 ''Invalid or missing credentials'')
      | Some token \<Rightarrow>
          if token = [] \<or> token \<noteq> VALID_TOKEN
          then Inl (HTTPException 401 ''Invalid or missing credentials'')
          else Inr token)"

section \<open>Subscription registry: the store and the handlers\<close>

text \<open>
  The table's key is an INTEGER PRIMARY KEY of SQLite, a signed 64-bit integer,
  declared without AUTOINCREMENT. An insert that gives no id receives a row id from the
  engine: 1 in an empty table, otherwise one more than the largest row id in the table;
  when the largest row id is the largest 64-bit integer, the engine draws candidates at
  random and the insert fails unless it finds a positive id that is not in use.
\<close>

definition MAX_ROWID :: int where
  "MAX_ROWID = 9223372036854775807"

definition MIN_ROWID :: int where
  "MIN_ROWID = - 9223372036854775808"

definition new_rowid :: "library \<Rightarrow> int list \<Rightarrow> int option" where
  "new_rowid lib ids =
     (if ids = [] then Some 1
      else if Max (set ids) < MAX_ROWID then Some (Max (set ids) + 1)
      else (case random_rowid lib ids of
              None \<Rightarrow> None
            | Some r \<Rightarrow>
                if 0 < r \<and> r \<le> MAX_ROWID \<and> r \<notin> set ids then Some r else None))"

text \<open>
  The handlers take the table as a list of rows and return their result with the table
  they leave behind. A handler that raises leaves the table as it found it: the
  session is closed without a commit.
\<close>

text \<open>
  \<^verbatim>\<open>list_subscriptions\<close>: a query without an ORDER BY walks the table by row id,
  whatever the order in which the rows were inserted.
\<close>

definition list_subscriptions :: "Subscription list \<Rightarrow> Subscription list" where
  "list_subscriptions db = sort_key sub_id db"

text \<open>
  The lookup \<^verbatim>\<open>db.query(Subscription).filter(Subscription.id == sub_id).first()\<close>
  of the three handlers below. The path parameter is a Python integer of any size; one
  outside the signed 64-bit range is the id of no row and cannot be bound to the
  statement: the driver raises \<^verbatim>\<open>OverflowError\<close>, which no handler catches.
\<close>

definition query_first :: "int \<Rightarrow> Subscription list \<Rightarrow> error + Subscription option" where
  "query_first sid db =
     (case find (\<lambda>s. sub_id s = sid) db of
        Some db_sub \<Rightarrow> Inr (Some db_sub)
      | None \<Rightarrow>
          if sid < MIN_ROWID \<or> MAX_ROWID < sid then Inl InternalServerError
          else Inr None)"

definition create_subscription ::
  "library \<Rightarrow> datetime \<Rightarrow> SubscriptionCreate \<Rightarrow> Subscription list
     \<Rightarrow> (error + Subscription) \<times> Subscription list" where
  "create_subscription lib now subscription db =
     (case new_rowid lib (map sub_id db) of
        None \<Rightarrow> (Inl InternalServerError, db)
      | Some i \<Rightarrow>
          (let db_sub = \<lparr>sub_id = i,
                         notification_url = create_notification_url subscription,
                         event_type = create_event_type subscription,
                         created_at = now,
                         is_active = Some True\<rparr>
           in (Inr db_sub, db @ [db_sub])))"

text \<open>
  The loop \<^verbatim>\<open>for key, value in update_data.items(): setattr(db_sub, key, value)\<close>
  over the fields that were sent (\<^verbatim>\<open>exclude_unset=True\<close>), as the columns of the
  row after the commit. A \<^verbatim>\<open>notification_url\<close> sent as null never reaches a row:
  \<open>update_subscription\<close> below fails before.
\<close>

definition setattrs :: "SubscriptionUpdate \<Rightarrow> Subscription \<Rightarrow> Subscription" where
  "setattrs update_data db_sub =
     db_sub
       \<lparr>notification_url :=
          (case update_notification_url update_data of
             Some (Some url) \<Rightarrow> url
           | _ \<Rightarrow> notification_url db_sub),
        event_type :=
          (case update_event_type update_data of
             Some v \<Rightarrow> v
           | None \<Rightarrow> event_type db_sub),
        is_active :=
          (case update_is_active update_data of
             Some v \<Rightarrow> v
           | None \<Rightarrow> is_active db_sub)\<rparr>"

text \<open>
  \<^verbatim>\<open>update_subscription\<close>. The commit writes the changed columns to the row whose
  key is \<^verbatim>\<open>sub_id\<close>. A \<^verbatim>\<open>notification_url\<close> sent as null is set on the
  object, and the commit then fails on the NOT NULL constraint with an exception the
  handler does not catch.
\<close>

definition update_subscription ::
  "int \<Rightarrow> SubscriptionUpdate \<Rightarrow> Subscription list
     \<Rightarrow> (error + Subscription) \<times> Subscription list" where
  "update_subscription sid subscription db =
     (case query_first sid db of
        Inl e \<Rightarrow> (Inl e, db)
      | Inr None \<Rightarrow> (Inl (HTTPException 404 ''Subscription not found''), db)
      | Inr (Some db_sub) \<Rightarrow>
          if update_notification_url subscription = Some None
          then (Inl InternalServerError, db)
          else (Inr (setattrs subscription db_sub),
                map (\<lambda>s. if sub_id s = sid then setattrs subscription s else s) db))"

definition delete_subscription ::
  "int \<Rightarrow> Subscription list \<Rightarrow> (error + unit) \<times> Subscription list" where
  "delete_subscription sid db =
     (case query_first sid db of
        Inl e \<Rightarrow> (Inl e, db)
      | Inr None \<Rightarrow> (Inl (HTTPException 404 ''Subscription not found''), db)
      | Inr (Some db_sub) \<Rightarrow> (Inr (), filter (\<lambda>s. sub_id s \<noteq> sid) db))"

text \<open>
  The outcome of \<^verbatim>\<open>requests.post\<close>: a response, with its status code and the text
  that \<^verbatim>\<open>raise_for_status\<close> gives its \<^verbatim>\<open>HTTPError\<close>; a
  \<^verbatim>\<open>RequestException\<close> raised before any response, with its text; or an exception
  of another class (the URL parser's, for one), which the handler's \<^verbatim>\<open>except\<close>
  clause does not catch.
\<close>

datatype post_outcome =
    Response nat string
  | RequestException string
  | OtherException string

definition notification_payload :: "library \<Rightarrow> datetime \<Rightarrow> int \<Rightarrow> Subscription \<Rightarrow> json" where
  "notification_payload lib now sid subscription =
     JObject
       [(''status'', JStr ''success''),
        (''subscription_id'', JInt sid),
        (''event_type'', (case event_type subscription of None \<Rightarrow> JNull | Some e \<Rightarrow> JStr e)),
        (''timestamp'', JStr (isoformat lib now))]"

text \<open>
  \<^verbatim>\<open>notify_subscription\<close>. The third component of the result lists the calls of
  \<^verbatim>\<open>requests.post\<close> the handler made, each with its URL and JSON body; the argument
  \<open>post\<close> is the outcome of such a call. One call can put more than one request on
  the wire when the client follows a redirect. \<^verbatim>\<open>raise_for_status\<close> raises for a
  status code from 400 to 599.
\<close>

definition notify_subscription ::
  "library \<Rightarrow> datetime \<Rightarrow> (string \<Rightarrow> json \<Rightarrow> post_outcome) \<Rightarrow> int \<Rightarrow> Subscription list
     \<Rightarrow> (error + string) \<times> Subscription list \<times> (string \<times> json) list" where
  "notify_subscription lib now post sid db =
     (case query_first sid db of
        Inl e \<Rightarrow> (Inl e, db, [])
      | Inr None \<Rightarrow> (Inl (HTTPException 404 ''Subscription not found''), db, [])
      | Inr (Some subscription) \<Rightarrow>
          if is_active subscription \<noteq> Some True
          then (Inl (HTTPException 400 ''Inactive subscription''), db, [])
          else
            (let url = notification_url subscription;
                 body = notification_payload lib now sid subscription
             in case post url body of
                  RequestException e \<Rightarrow>
                    (Inl (HTTPException 500 (''Notification failed: '' @ e)), db, [(url, body)])
                | OtherException e \<Rightarrow> (Inl InternalServerError, db, [(url, body)])
                | Response status_code e \<Rightarrow>
                    if 400 \<le> status_code \<and> status_code < 600
                    then (Inl (HTTPException 500 (''Notification failed: '' @ e)), db, [(url, body)])
                    else (Inr ''Notification sent successfully'', db, [(url, body)])))"

text \<open>
  The routes. The framework resolves the dependency \<^verbatim>\<open>authenticate\<close> first, then
  validates the body against the declared model, calls the handler and passes what it
  returns through the response model.
\<close>

definition respond ::
  "(error + Subscription) \<times> Subscription list
     \<Rightarrow> (error + SubscriptionResponse) \<times> Subscription list" where
  "respond r = (case fst r of Inl e \<Rightarrow> (Inl e, snd r) | Inr s \<Rightarrow> (response_model s, snd r))"

definition route_list_subscriptions ::
  "request \<Rightarrow> Subscription list
     \<Rightarrow> (error + SubscriptionResponse list) \<times> Subscription list" where
  "route_list_subscriptions rq db =
     (case authenticate rq of
        Inl e \<Rightarrow> (Inl e, db)
      | Inr token \<Rightarrow> (response_model_list (list_subscriptions db), db))"

definition route_create_subscription ::
  "library \<Rightarrow> datetime \<Rightarrow> request \<Rightarrow> json \<Rightarrow> Subscription list
     \<Rightarrow> (error + SubscriptionResponse) \<times> Subscription list" where
  "route_create_subscription lib now rq body db =
     (case authenticate rq of
        Inl e \<Rightarrow> (Inl e, db)
      | Inr token \<Rightarrow>
          (case SubscriptionCreate_parse lib body of
             Inl e \<Rightarrow> (Inl e, db)
           | Inr subscription \<Rightarrow> respond (create_subscription lib now subscription db)))"

definition route_update_subscription ::
  "library \<Rightarrow> request \<Rightarrow> int \<Rightarrow> json \<Rightarrow> Subscription list
     \<Rightarrow> (error + SubscriptionResponse) \<times> Subscription list" where
  "route_update_subscription lib rq sid body db =
     (case authenticate rq of
        Inl e \<Rightarrow> (Inl e, db)
      | Inr token \<Rightarrow>
          (case SubscriptionUpdate_parse lib body of
             Inl e \<Rightarrow> (Inl e, db)
           | Inr subscription \<Rightarrow> respond (update_subscription sid subscription db)))"

definition route_delete_subscription ::
  "request \<Rightarrow> int \<Rightarrow> Subscription list \<Rightarrow> (error + unit) \<times> Subscription list" where
  "route_delete_subscription rq sid db =
     (case authenticate rq of
        Inl e \<Rightarrow> (Inl e, db)
      | Inr token \<Rightarrow> delete_subscription sid db)"

definition route_notify_subscription ::
  "library \<Rightarrow> datetime \<Rightarrow> (string \<Rightarrow> json \<Rightarrow> post_outcome) \<Rightarrow> request \<Rightarrow> int
     \<Rightarrow> Subscription list
     \<Rightarrow> (error + string) \<times> Subscription list \<times> (string \<times> json) list" where
  "route_notify_subscription lib now post rq sid db =
     (case authenticate rq of
        Inl e \<Rightarrow> (Inl e, db, [])
      | Inr token \<Rightarrow> notify_subscription lib now post sid db)"

text \<open>
  A sequence of create and delete calls against the table, with what each call did:
  the id it assigned, the id it removed, or the error it raised.
\<close>

datatype operation = Create SubscriptionCreate datetime | Delete int

datatype outcome = Assigned int | Removed int | Failed error

fun step :: "library \<Rightarrow> operation \<Rightarrow> Subscription list \<Rightarrow> outcome \<times> Subscription list" where
  "step lib (Create subscription now) db =
     (case fst (create_subscription lib now subscription db) of
        Inl e \<Rightarrow> (Failed e, snd (create_subscription lib now subscription db))
      | Inr db_sub \<Rightarrow>
          (Assigned (sub_id db_sub), snd (create_subscription lib now subscription db)))"
| "step lib (Delete sid) db =
     (case fst (delete_subscription sid db) of
        Inl e \<Rightarrow> (Failed e, snd (delete_subscription sid db))
      | Inr u \<Rightarrow> (Removed sid, snd (delete_subscription sid db)))"

fun run :: "library \<Rightarrow> operation list \<Rightarrow> Subscription list \<Rightarrow> outcome list \<times> Subscription list" where
  "run lib [] db = ([], db)"
| "run lib (operation # operations) db =
     (fst (step lib operation db) # fst (run lib operations (snd (step lib operation db))),
      snd (run lib operations (snd (step lib operation db))))"

section \<open>Notification listener: ingestion, the log and its read endpoint\<close>

record Notification =
  status :: string
  subscription_id :: int
  notification_event_type :: string
  timestamp :: datetime

record log_entry =
  received_at :: string
  notification :: Notification

definition Notification_parse :: "library \<Rightarrow> json \<Rightarrow> error + Notification" where
  "Notification_parse lib body =
     (case body of
        JObject kvs \<Rightarrow>
          (case required_field (str_validator lib) (dict_of kvs) ''status'' of
             Inl e \<Rightarrow> Inl e
           | Inr st \<Rightarrow>
               (case required_field (int_validator lib) (dict_of kvs) ''subscription_id'' of
                  Inl e \<Rightarrow> Inl e
                | Inr sid \<Rightarrow>
                    (case required_field (str_validator lib) (dict_of kvs) ''event_type'' of
                       Inl e \<Rightarrow> Inl e
                     | Inr et \<Rightarrow>
                         (case required_field (datetime_validator lib) (dict_of kvs) ''timestamp'' of
                            Inl e \<Rightarrow> Inl e
                          | Inr ts \<Rightarrow>
                              Inr \<lparr>status = st,
                                   subscription_id = sid,
                                   notification_event_type = et,
                                   timestamp = ts\<rparr>))))
      | _ \<Rightarrow> Inl RequestValidationError)"

text \<open>
  \<^verbatim>\<open>receive_notification\<close>: the framework validates the body against
  \<^verbatim>\<open>Notification\<close> before the handler runs; the handler appends to the log.
\<close>

definition receive_notification ::
  "library \<Rightarrow> datetime \<Rightarrow> json \<Rightarrow> log_entry list \<Rightarrow> (error + string) \<times> log_entry list" where
  "receive_notification lib now body received_notifications =
     (case Notification_parse lib body of
        Inl e \<Rightarrow> (Inl e, received_notifications)
      | Inr n \<Rightarrow>
          (Inr ''Notification processed successfully'',
           received_notifications @ [\<lparr>received_at = isoformat lib now, notification = n\<rparr>]))"

text \<open>
  Python's slice \<^verbatim>\<open>xs[start:]\<close> on a list: a negative start counts from the
  end, and an out-of-range start is clamped to the list (a slice never raises).
\<close>

definition slice_from :: "int \<Rightarrow> 'a list \<Rightarrow> 'a list" where
  "slice_from start xs =
     (let n = int (length xs);
          s = (if start < 0 then max (n + start) 0 else min start n)
      in drop (nat s) xs)"

text \<open>
  \<^verbatim>\<open>get_notifications(limit: int = 10)\<close> returns
  \<^verbatim>\<open>received_notifications[-limit:]\<close>; the log is the module-level list, passed
  here as an argument.
\<close>

definition get_notifications :: "int \<Rightarrow> 'a list \<Rightarrow> 'a list" where
  "get_notifications limit received_notifications = slice_from (- limit) received_notifications"

definition clear_notifications :: "'a list \<Rightarrow> 'a list" where
  "clear_notifications received_notifications = []"


section \<open>Concrete inputs\<close>

text \<open>
  A library that coerces nothing, reads every string as the datetime 0, renders every
  datetime as the same text and finds no row id at random.
\<close>

definition strict_library :: library where
  "strict_library =
     \<lparr>str_coerce = (\<lambda>v. None),
      int_coerce = (\<lambda>v. None),
      bool_coerce = (\<lambda>v. None),
      datetime_validator = (\<lambda>v. case v of JStr s \<Rightarrow> Some 0 | _ \<Rightarrow> None),
      isoformat = (\<lambda>t. ''2024-01-01T00:00:00''),
      random_rowid = (\<lambda>ids. None)\<rparr>"

text \<open>The same library with an engine that draws 7 as its random row id.\<close>

definition drawing_library :: library where
  "drawing_library = strict_library\<lparr>random_rowid := (\<lambda>ids. Some 7)\<rparr>"

definition authorized_request :: request where
  "authorized_request =
     \<lparr>authorization = None, x_access_token = Some ''secret-token'', plain_token = None\<rparr>"

definition stored_hook :: Subscription where
  "stored_hook =
     \<lparr>sub_id = 1, notification_url = ''http://localhost:8001/receive'',
      event_type = Some ''test'', created_at = 0, is_active = Some True\<rparr>"

definition paused_hook :: Subscription where
  "paused_hook =
     \<lparr>sub_id = 2, notification_url = ''http://localhost:8001/receive'',
      event_type = Some ''test'', created_at = 0, is_active = Some False\<rparr>"

definition untyped_hook :: Subscription where
  "untyped_hook =
     \<lparr>sub_id = 3, notification_url = ''http://localhost:8001/receive'',
      event_type = None, created_at = 0, is_active = Some True\<rparr>"

definition last_hook :: Subscription where
  "last_hook =
     \<lparr>sub_id = 9223372036854775807, notification_url = ''http://localhost:8001/receive'',
      event_type = Some ''test'', created_at = 0, is_active = Some True\<rparr>"

definition hook :: SubscriptionCreate where
  "hook = \<lparr>create_notification_url = ''http://localhost:8001/receive'',
           create_event_type = Some ''test''\<rparr>"

section \<open>Properties of the listener's read endpoint\<close>

text \<open>
  C7. For every log and every limit greater than zero, the read endpoint returns the
  suffix of the log holding its most recent min(limit, length) entries, in arrival
  order; a limit beyond the size of the log returns the whole log.
\<close>

theorem get_notifications_positive_limit:
  "0 < limit \<Longrightarrow>
     get_notifications limit log = drop (length log - nat limit) log
     \<and> length (get_notifications limit log) = min (nat limit) (length log)
     \<and> (\<exists>older. log = older @ get_notifications limit log)
     \<and> (int (length log) \<le> limit \<longrightarrow> get_notifications limit log = log)"
proof -
  assume pos: "0 < limit"
  have eq: "get_notifications limit log = drop (length log - nat limit) log"
  proof (cases "int (length log) \<le> limit")
    case True
    with pos have "length log - nat limit = 0" by linarith
    with True pos show ?thesis
      by (simp add: get_notifications_def slice_from_def Let_def max_def)
  next
    case False
    with pos have "nat (int (length log) - limit) = length log - nat limit" by linarith
    with False pos show ?thesis
      by (simp add: get_notifications_def slice_from_def Let_def max_def)
  qed
  have len: "length (get_notifications limit log) = min (nat limit) (length log)"
    unfolding eq using pos by (simp add: min_def)
  have suffix: "\<exists>older. log = older @ get_notifications limit log"
    unfolding eq by (metis append_take_drop_id)
  have whole: "int (length log) \<le> limit \<longrightarrow> get_notifications limit log = log"
    unfolding eq by auto
  from eq len suffix whole show ?thesis by blast
qed

theorem get_notifications_positive_limit_witness:
  "get_notifications 2 [10, 20, 30 :: nat] = [20, 30]
   \<and> get_notifications 5 [10, 20, 30 :: nat] = [10, 20, 30]"
  using get_notifications_positive_limit [of 2 "[10, 20, 30 :: nat]"]
        get_notifications_positive_limit [of 5 "[10, 20, 30 :: nat]"]
  by simp

text \<open>
  C8. With limit 0 the read endpoint returns the whole log, and with limit -k, k > 0,
  it returns the log without its k oldest entries.
\<close>

theorem get_notifications_nonpositive_limit:
  "get_notifications 0 log = log
   \<and> (0 < k \<longrightarrow> get_notifications (- k) log = drop (nat k) log)"
  by (auto simp: get_notifications_def slice_from_def Let_def min_def)

theorem get_notifications_nonpositive_limit_witness:
  "get_notifications 0 [10, 20, 30 :: nat] = [10, 20, 30]
   \<and> get_notifications (- 1) [10, 20, 30 :: nat] = [20, 30]
   \<and> get_notifications (- 7) [10, 20, 30 :: nat] = []"
  using get_notifications_nonpositive_limit [of "[10, 20, 30 :: nat]" 1]
        get_notifications_nonpositive_limit [of "[10, 20, 30 :: nat]" 7]
  by simp

section \<open>Properties of the lookup\<close>

lemma query_first_found:
  "find (\<lambda>s. sub_id s = sid) db = Some s \<Longrightarrow> query_first sid db = Inr (Some s)"
  by (simp add: query_first_def)



section \<open>Properties of the registry: subscription ids\<close>

lemma new_rowid_fresh: "new_rowid lib ids = Some i \<Longrightarrow> i \<notin> set ids"
proof -
  assume a: "new_rowid lib ids = Some i"
  show ?thesis
  proof (cases "ids = []")
    case True
    then show ?thesis by simp
  next
    case ne: False
    show ?thesis
    proof (cases "Max (set ids) < MAX_ROWID")
      case True
      with ne a have i: "i = Max (set ids) + 1" by (simp add: new_rowid_def)
      show ?thesis
      proof
        assume "i \<in> set ids"
        then have "i \<le> Max (set ids)" by simp
        with i show False by simp
      qed
    next
      case False
      with ne a show ?thesis
        by (auto simp: new_rowid_def split: option.splits if_splits)
    qed
  qed
qed

lemma Max_below:
  "ids \<noteq> [] \<Longrightarrow> (Max (set ids) < (m::int)) = (\<forall>x\<in>set ids. x < m)"
  by simp

text \<open>The row id that the engine gives, in full.\<close>

lemma new_rowid_cases:
  "new_rowid lib ids =
     (if \<forall>x\<in>set ids. x < MAX_ROWID
      then Some (if ids = [] then 1 else Max (set ids) + 1)
      else (case random_rowid lib ids of
              None \<Rightarrow> None
            | Some r \<Rightarrow>
                if 0 < r \<and> r \<le> MAX_ROWID \<and> r \<notin> set ids then Some r else None))"
proof (cases "ids = []")
  case True
  then show ?thesis by (simp add: new_rowid_def)
next
  case False
  with Max_below [OF False, of MAX_ROWID] show ?thesis
    by (simp add: new_rowid_def)
qed

lemma create_subscription_result:
  "create_subscription lib now c db =
     (case new_rowid lib (map sub_id db) of
        None \<Rightarrow> (Inl InternalServerError, db)
      | Some i \<Rightarrow>
          (Inr \<lparr>sub_id = i, notification_url = create_notification_url c,
                event_type = create_event_type c, created_at = now, is_active = Some True\<rparr>,
           db @ [\<lparr>sub_id = i, notification_url = create_notification_url c,
                   event_type = create_event_type c, created_at = now,
                   is_active = Some True\<rparr>]))"
  by (simp add: create_subscription_def Let_def split: option.splits)

lemma create_subscription_fresh:
  "fst (create_subscription lib now c db) = Inr s \<Longrightarrow> sub_id s \<notin> sub_id ` set db"
  using new_rowid_fresh [of lib "map sub_id db"]
  by (auto simp: create_subscription_def Let_def split: option.splits)

lemma run_assigned_fresh:
  "k < length ops \<Longrightarrow> fst (run lib ops db) ! k = Assigned i
     \<Longrightarrow> i \<notin> sub_id ` set (snd (run lib (take k ops) db))"
proof (induction ops arbitrary: k db)
  case Nil
  then show ?case by simp
next
  case (Cons operation ops)
  show ?case
  proof (cases k)
    case 0
    with Cons.prems have st: "fst (step lib operation db) = Assigned i" by simp
    then obtain c now where op: "operation = Create c now"
      by (cases operation) (auto split: sum.splits)
    from st op obtain s where "fst (create_subscription lib now c db) = Inr s" "sub_id s = i"
      by (auto split: sum.splits)
    with create_subscription_fresh [of lib now c db s] 0 show ?thesis by simp
  next
    case (Suc k')
    with Cons.prems Cons.IH [of k' "snd (step lib operation db)"] show ?thesis by simp
  qed
qed

lemma create_subscription_below_max:
  assumes small: "\<forall>x\<in>set db. sub_id x < MAX_ROWID"
  shows "\<exists>s. create_subscription lib now c db = (Inr s, db @ [s])
           \<and> sub_id s = (if db = [] then 1 else Max (sub_id ` set db) + 1)"
proof -
  from small have "\<forall>x\<in>set (map sub_id db). x < MAX_ROWID" by simp
  then have "new_rowid lib (map sub_id db)
      = Some (if db = [] then 1 else Max (sub_id ` set db) + 1)"
    by (simp add: new_rowid_cases)
  then show ?thesis by (simp add: create_subscription_result)
qed

lemma create_subscription_at_max_drawn:
  assumes big: "\<not> (\<forall>x\<in>set db. sub_id x < MAX_ROWID)"
    and draw: "random_rowid lib (map sub_id db) = Some r"
    and ok: "0 < r" "r \<le> MAX_ROWID" "r \<notin> sub_id ` set db"
  shows "\<exists>s. create_subscription lib now c db = (Inr s, db @ [s]) \<and> sub_id s = r"
proof -
  from big have nb: "\<not> (\<forall>x\<in>set (map sub_id db). x < MAX_ROWID)" by simp
  have "new_rowid lib (map sub_id db) = Some r"
    unfolding new_rowid_cases [of lib "map sub_id db"] if_not_P [OF nb]
    using draw ok by simp
  then show ?thesis by (simp add: create_subscription_result)
qed

lemma create_subscription_at_max_full:
  assumes big: "\<not> (\<forall>x\<in>set db. sub_id x < MAX_ROWID)"
    and none: "\<not> (\<exists>r. random_rowid lib (map sub_id db) = Some r
                      \<and> 0 < r \<and> r \<le> MAX_ROWID \<and> r \<notin> sub_id ` set db)"
  shows "create_subscription lib now c db = (Inl InternalServerError, db)"
proof -
  from big have nb: "\<not> (\<forall>x\<in>set (map sub_id db). x < MAX_ROWID)" by simp
  have "new_rowid lib (map sub_id db) = None"
    unfolding new_rowid_cases [of lib "map sub_id db"] if_not_P [OF nb]
    using none by (auto split: option.splits)
  then show ?thesis by (simp add: create_subscription_result)
qed

text \<open>
  C1, as the code has it. In every sequence of create and delete calls, the id that a
  create assigns is not the id of any subscription stored at that moment. While every
  stored id is below the largest row id, a create succeeds and assigns 1 on an empty
  table and otherwise one more than the largest stored id. Once the largest row id is
  stored, a create assigns the id that the engine draws at random, when that id is
  positive, a row id and not in use, and fails otherwise. (The id of a subscription
  deleted earlier is not excluded: see the sequence below.)
\<close>

theorem assigned_id_not_in_use:
  "(k < length ops \<and> fst (run lib ops db) ! k = Assigned i \<longrightarrow>
      i \<notin> sub_id ` set (snd (run lib (take k ops) db)))
   \<and> ((\<forall>x\<in>set db. sub_id x < MAX_ROWID) \<longrightarrow>
        (\<exists>s. create_subscription lib now c db = (Inr s, db @ [s])
            \<and> sub_id s = (if db = [] then 1 else Max (sub_id ` set db) + 1)))
   \<and> (\<not> (\<forall>x\<in>set db. sub_id x < MAX_ROWID)
        \<and> random_rowid lib (map sub_id db) = Some r
        \<and> 0 < r \<and> r \<le> MAX_ROWID \<and> r \<notin> sub_id ` set db \<longrightarrow>
        (\<exists>s. create_subscription lib now c db = (Inr s, db @ [s]) \<and> sub_id s = r))
   \<and> (\<not> (\<forall>x\<in>set db. sub_id x < MAX_ROWID)
        \<and> \<not> (\<exists>r. random_rowid lib (map sub_id db) = Some r
                  \<and> 0 < r \<and> r \<le> MAX_ROWID \<and> r \<notin> sub_id ` set db) \<longrightarrow>
        create_subscription lib now c db = (Inl InternalServerError, db))"
  using run_assigned_fresh [of k ops lib db i]
        create_subscription_below_max [of db lib now c]
        create_subscription_at_max_drawn [of db lib r now c]
        create_subscription_at_max_full [of db lib now c]
  by blast

theorem assigned_id_not_in_use_witness:
  "(2::int) \<notin> sub_id ` set (snd (run strict_library
                                     (take 2 [Create hook 0, Delete 2, Create hook 1])
                                     [stored_hook]))
   \<and> fst (run strict_library [Create hook 0, Delete 2, Create hook 1] [stored_hook])
       = [Assigned 2, Removed 2, Assigned 2]
   \<and> fst (step strict_library (Create hook 9) [stored_hook, paused_hook]) = Assigned 3
   \<and> fst (step drawing_library (Create hook 9) [stored_hook, last_hook]) = Assigned 7
   \<and> step strict_library (Create hook 9) [stored_hook, last_hook]
       = (Failed InternalServerError, [stored_hook, last_hook])"
proof -
  have run: "fst (run strict_library [Create hook 0, Delete 2, Create hook 1] [stored_hook])
       = [Assigned 2, Removed 2, Assigned 2]"
    by (simp add: create_subscription_def delete_subscription_def query_first_def
          new_rowid_def strict_library_def hook_def stored_hook_def MAX_ROWID_def Let_def)
  from assigned_id_not_in_use
         [where k = 2 and ops = "[Create hook 0, Delete 2, Create hook 1]"
            and lib = strict_library and db = "[stored_hook]" and i = 2,
          THEN conjunct1]
       run
  have a: "(2::int) \<notin> sub_id ` set (snd (run strict_library
                                     (take 2 [Create hook 0, Delete 2, Create hook 1])
                                     [stored_hook]))"
    by simp
  have small: "\<forall>x\<in>set [stored_hook, paused_hook]. sub_id x < MAX_ROWID"
    by (simp add: stored_hook_def paused_hook_def MAX_ROWID_def)
  from assigned_id_not_in_use
         [where lib = strict_library and now = 9 and c = hook
            and db = "[stored_hook, paused_hook]",
          THEN conjunct2, THEN conjunct1, THEN mp, OF small]
  obtain s where
    "create_subscription strict_library 9 hook [stored_hook, paused_hook]
       = (Inr s, [stored_hook, paused_hook] @ [s])"
    "sub_id s = Max (sub_id ` set [stored_hook, paused_hook]) + 1"
    by auto
  then have b: "fst (step strict_library (Create hook 9) [stored_hook, paused_hook])
      = Assigned 3"
    by (simp add: stored_hook_def paused_hook_def)
  have big: "\<not> (\<forall>x\<in>set [stored_hook, last_hook]. sub_id x < MAX_ROWID)"
    by (simp add: stored_hook_def last_hook_def MAX_ROWID_def)
  have drawn: "random_rowid drawing_library (map sub_id [stored_hook, last_hook]) = Some 7
      \<and> (0::int) < 7 \<and> 7 \<le> MAX_ROWID \<and> 7 \<notin> sub_id ` set [stored_hook, last_hook]"
    by (simp add: drawing_library_def stored_hook_def last_hook_def MAX_ROWID_def)
  from assigned_id_not_in_use
         [where lib = drawing_library and now = 9 and c = hook
            and db = "[stored_hook, last_hook]" and r = 7,
          THEN conjunct2, THEN conjunct2, THEN conjunct1, THEN mp,
          OF conjI [OF big drawn]]
  obtain s where
    "create_subscription drawing_library 9 hook [stored_hook, last_hook]
       = (Inr s, [stored_hook, last_hook] @ [s])" "sub_id s = 7"
    by auto
  then have c: "fst (step drawing_library (Create hook 9) [stored_hook, last_hook])
      = Assigned 7"
    by simp
  have none: "\<not> (\<exists>r. random_rowid strict_library (map sub_id [stored_hook, last_hook]) = Some r
                      \<and> 0 < r \<and> r \<le> MAX_ROWID \<and> r \<notin> sub_id ` set [stored_hook, last_hook])"
    by (simp add: strict_library_def)
  from assigned_id_not_in_use
         [where lib = strict_library and now = 9 and c = hook
            and db = "[stored_hook, last_hook]",
          THEN conjunct2, THEN conjunct2, THEN conjunct2, THEN mp,
          OF conjI [OF big none]]
  have d: "step strict_library (Create hook 9) [stored_hook, last_hook]
       = (Failed InternalServerError, [stored_hook, last_hook])"
    by simp
  from a run b c d show ?thesis by simp
qed

text \<open>
  C1, as the specification states it, fails: on an empty table, a create is given id 1;
  once that subscription is deleted, the next create is given id 1 again.
\<close>

theorem deleted_id_assigned_again:
  "fst (run strict_library [Create hook 0, Delete 1, Create hook 1] [])
     = [Assigned 1, Removed 1, Assigned 1]"
  by (simp add: create_subscription_def delete_subscription_def query_first_def
        new_rowid_def strict_library_def hook_def MAX_ROWID_def Let_def)

section \<open>Properties of the registry: authentication\<close>

lemma lower_Bearer: "map lower_char ''Bearer'' = ''bearer''"
  by code_simp

lemma takeWhile_dropWhile_split:
  "takeWhile P v = a \<Longrightarrow> drop 1 (dropWhile P v) = p \<Longrightarrow> p \<noteq> [] \<Longrightarrow>
   \<exists>c. \<not> P c \<and> v = a @ c # p"
proof -
  assume a: "takeWhile P v = a" and p: "drop 1 (dropWhile P v) = p" and ne: "p \<noteq> []"
  have "dropWhile P v \<noteq> []"
  proof
    assume "dropWhile P v = []"
    with p ne show False by simp
  qed
  then obtain c rest where d: "dropWhile P v = c # rest" by (cases "dropWhile P v") auto
  then have "\<not> P c" by (metis hd_dropWhile list.sel(1) list.distinct(1))
  moreover have "v = a @ c # p" using a p d
    by (metis drop0 drop_Suc_Cons One_nat_def takeWhile_dropWhile_id)
  ultimately show ?thesis by blast
qed

text \<open>
  The handler takes the token from the Authorization header exactly when the header is
  \<^verbatim>\<open>Bearer\<close>, one space, and a non-empty rest.
\<close>

lemma http_bearer_Bearer:
  "(\<exists>c. http_bearer h = Some c \<and> scheme c = ''Bearer'')
     \<longleftrightarrow> (\<exists>t. t \<noteq> [] \<and> h = Some (''Bearer '' @ t))"
proof
  assume "\<exists>c. http_bearer h = Some c \<and> scheme c = ''Bearer''"
  then obtain c where c: "http_bearer h = Some c" "scheme c = ''Bearer''" by blast
  then obtain v where v: "h = Some v" "v \<noteq> []"
    by (cases h) (auto simp: http_bearer_def get_authorization_scheme_param_def split: if_splits)
  with c have tw: "takeWhile (\<lambda>c. c \<noteq> CHR '' '') v = ''Bearer''"
    and dw: "drop 1 (dropWhile (\<lambda>c. c \<noteq> CHR '' '') v) = credentials c"
    and ne: "credentials c \<noteq> []"
    by (auto simp: http_bearer_def get_authorization_scheme_param_def split: if_splits)
  from takeWhile_dropWhile_split [OF tw dw ne]
  have "v = ''Bearer '' @ credentials c" by auto
  with v ne show "\<exists>t. t \<noteq> [] \<and> h = Some (''Bearer '' @ t)" by blast
next
  assume "\<exists>t. t \<noteq> [] \<and> h = Some (''Bearer '' @ t)"
  then obtain t where t: "t \<noteq> []" "h = Some (''Bearer '' @ t)" by blast
  then have "http_bearer h = Some \<lparr>scheme = ''Bearer'', credentials = t\<rparr>"
    using lower_Bearer by (simp add: http_bearer_def get_authorization_scheme_param_def)
  then show "\<exists>c. http_bearer h = Some c \<and> scheme c = ''Bearer''" by simp
qed

lemma select_token_Bearer:
  "t \<noteq> [] \<Longrightarrow> authorization rq = Some (''Bearer '' @ t) \<Longrightarrow> select_token rq = Some t"
  using lower_Bearer
  by (simp add: select_token_def http_bearer_def get_authorization_scheme_param_def)

lemma select_token_other:
  "\<forall>t. t \<noteq> [] \<longrightarrow> authorization rq \<noteq> Some (''Bearer '' @ t) \<Longrightarrow>
   select_token rq = (if truthy (x_access_token rq) then x_access_token rq
                      else if truthy (plain_token rq) then plain_token rq else None)"
proof -
  assume a: "\<forall>t. t \<noteq> [] \<longrightarrow> authorization rq \<noteq> Some (''Bearer '' @ t)"
  with http_bearer_Bearer [of "authorization rq"]
  have "\<not> (\<exists>c. http_bearer (authorization rq) = Some c \<and> scheme c = ''Bearer'')" by blast
  then have "\<not> (case http_bearer (authorization rq) of
                  None \<Rightarrow> False | Some c \<Rightarrow> scheme c = ''Bearer'')"
    by (auto split: option.splits)
  then show ?thesis by (simp add: select_token_def Let_def)
qed

lemma authenticate_select:
  "authenticate rq = (if select_token rq = Some VALID_TOKEN then Inr VALID_TOKEN
                      else Inl (HTTPException 401 ''Invalid or missing credentials''))"
  by (auto simp: authenticate_def VALID_TOKEN_def split: option.splits)

lemma unauthorized_routes:
  "authenticate rq = Inl e \<Longrightarrow>
     route_list_subscriptions rq db = (Inl e, db)
   \<and> route_create_subscription lib now rq body db = (Inl e, db)
   \<and> route_update_subscription lib rq sid body db = (Inl e, db)
   \<and> route_delete_subscription rq sid db = (Inl e, db)
   \<and> route_notify_subscription lib now post rq sid db = (Inl e, db, [])"
  by (simp add: route_list_subscriptions_def route_create_subscription_def
        route_update_subscription_def route_delete_subscription_def
        route_notify_subscription_def)

lemma authenticate_authorized_request: "authenticate authorized_request = Inr ''secret-token''"
  by (simp add: authorized_request_def authenticate_def select_token_def http_bearer_def
        get_authorization_scheme_param_def truthy_def VALID_TOKEN_def)

text \<open>
  C3, as the code has it. The token is taken from the first usable source: an
  Authorization header that reads \<^verbatim>\<open>Bearer\<close> (in exactly this spelling), one
  space and a non-empty token; otherwise a non-empty x-access-token header; otherwise
  a non-empty plain_token parameter. A source that is missing, empty or, for the
  Authorization header, of another form is passed over. A request is accepted exactly
  when the token so chosen is the secret; every other request fails with status 401 in
  each of the five routes, which then leave the table as it was and post nothing. In
  particular a wrong token after \<^verbatim>\<open>Bearer\<close> fails whatever the other two sources
  hold.
\<close>

theorem authenticate_first_usable_source:
  "(t \<noteq> [] \<and> authorization rq = Some (''Bearer '' @ t) \<longrightarrow> select_token rq = Some t)
   \<and> ((\<forall>u. u \<noteq> [] \<longrightarrow> authorization rq \<noteq> Some (''Bearer '' @ u)) \<longrightarrow>
        select_token rq = (if truthy (x_access_token rq) then x_access_token rq
                           else if truthy (plain_token rq) then plain_token rq
                           else None))
   \<and> authenticate rq = (if select_token rq = Some VALID_TOKEN then Inr VALID_TOKEN
                        else Inl (HTTPException 401 ''Invalid or missing credentials''))
   \<and> (authenticate rq = Inl e \<longrightarrow>
          route_list_subscriptions rq db = (Inl e, db)
        \<and> route_create_subscription lib now rq body db = (Inl e, db)
        \<and> route_update_subscription lib rq sid body db = (Inl e, db)
        \<and> route_delete_subscription rq sid db = (Inl e, db)
        \<and> route_notify_subscription lib now post rq sid db = (Inl e, db, []))
   \<and> (t \<noteq> [] \<and> t \<noteq> VALID_TOKEN \<and> authorization rq = Some (''Bearer '' @ t) \<longrightarrow>
        authenticate rq = Inl (HTTPException 401 ''Invalid or missing credentials''))"
proof -
  have first: "t \<noteq> [] \<and> authorization rq = Some (''Bearer '' @ t) \<longrightarrow> select_token rq = Some t"
    using select_token_Bearer [of t rq] by blast
  have rest: "(\<forall>u. u \<noteq> [] \<longrightarrow> authorization rq \<noteq> Some (''Bearer '' @ u)) \<longrightarrow>
        select_token rq = (if truthy (x_access_token rq) then x_access_token rq
                           else if truthy (plain_token rq) then plain_token rq
                           else None)"
    using select_token_other [of rq] by blast
  have routes: "authenticate rq = Inl e \<longrightarrow>
          route_list_subscriptions rq db = (Inl e, db)
        \<and> route_create_subscription lib now rq body db = (Inl e, db)
        \<and> route_update_subscription lib rq sid body db = (Inl e, db)
        \<and> route_delete_subscription rq sid db = (Inl e, db)
        \<and> route_notify_subscription lib now post rq sid db = (Inl e, db, [])"
    using unauthorized_routes [of rq e db lib now body sid post] by blast
  have wrong: "t \<noteq> [] \<and> t \<noteq> VALID_TOKEN \<and> authorization rq = Some (''Bearer '' @ t) \<longrightarrow>
        authenticate rq = Inl (HTTPException 401 ''Invalid or missing credentials'')"
    using select_token_Bearer [of t rq] by (simp add: authenticate_select)
  from first rest authenticate_select [of rq] routes wrong show ?thesis by blast
qed

theorem authenticate_first_usable_source_witness:
  "authenticate
     \<lparr>authorization = Some ''Bearer wrong-token'', x_access_token = Some ''secret-token'',
      plain_token = Some ''secret-token''\<rparr>
     = Inl (HTTPException 401 ''Invalid or missing credentials'')
   \<and> route_delete_subscription
       \<lparr>authorization = Some ''Bearer wrong-token'', x_access_token = Some ''secret-token'',
        plain_token = Some ''secret-token''\<rparr> 1 []
     = (Inl (HTTPException 401 ''Invalid or missing credentials''), [])"
  using authenticate_first_usable_source
    [where t = "''wrong-token''"
       and rq = "\<lparr>authorization = Some ''Bearer wrong-token'',
                  x_access_token = Some ''secret-token'',
                  plain_token = Some ''secret-token''\<rparr>"
       and e = "HTTPException 401 ''Invalid or missing credentials''"
       and db = "[]" and sid = 1]
  by (simp add: VALID_TOKEN_def)

text \<open>
  C3, as the specification states it, fails. A request with the wrong token in an
  Authorization header whose scheme is written \<^verbatim>\<open>bearer\<close> and with the right
  x-access-token is accepted; so is a request whose x-access-token header is present
  and empty, hence not the secret, and whose plain_token is right.
\<close>

theorem wrong_bearer_token_accepted:
  "authenticate
     \<lparr>authorization = Some ''bearer wrong-token'', x_access_token = Some ''secret-token'',
      plain_token = None\<rparr>
     = Inr ''secret-token''
   \<and> authenticate
       \<lparr>authorization = None, x_access_token = Some [], plain_token = Some ''secret-token''\<rparr>
     = Inr ''secret-token''"
  by code_simp

section \<open>Properties of the registry: creation\<close>

lemma SubscriptionCreate_parse_str:
  assumes url: "dict_of kvs ''notification_url'' = Some (JStr url)"
    and ev: "dict_of kvs ''event_type'' = ev"
            "ev = None \<or> ev = Some JNull \<or> ev = Some (JStr e)"
  shows "SubscriptionCreate_parse lib (JObject kvs)
     = Inr \<lparr>create_notification_url = url,
            create_event_type = (if ev = Some (JStr e) then Some e else None)\<rparr>"
proof -
  from url have u: "required_field (str_validator lib) (dict_of kvs) ''notification_url''
      = Inr url"
    by (simp add: required_field_def str_validator_def)
  from ev have et: "optional_field (str_validator lib) (dict_of kvs) ''event_type''
      = Inr (if ev = None then None else if ev = Some JNull then Some None else Some (Some e))"
    by (auto simp: optional_field_def str_validator_def)
  from ev have j: "(case (if ev = None then None
                          else if ev = Some JNull then Some None else Some (Some e)) of
                      None \<Rightarrow> None | Some v \<Rightarrow> v)
     = (if ev = Some (JStr e) then Some e else None)" by auto
  show ?thesis
    unfolding SubscriptionCreate_parse_def by (simp add: u et j)
qed

lemma route_create_subscription_parsed:
  assumes auth: "authenticate rq = Inr token"
    and parse: "SubscriptionCreate_parse lib body = Inr c"
    and created: "create_subscription lib now c db = (Inr s, db @ [s])"
  shows "route_create_subscription lib now rq body db
     = (Inr \<lparr>resp_id = sub_id s, resp_notification_url = create_notification_url c,
             resp_event_type = create_event_type c, resp_created_at = now,
             resp_is_active = True\<rparr>,
        db @ [\<lparr>sub_id = sub_id s, notification_url = create_notification_url c,
                event_type = create_event_type c, created_at = now,
                is_active = Some True\<rparr>])"
proof -
  from created obtain i where
    "s = \<lparr>sub_id = i, notification_url = create_notification_url c,
          event_type = create_event_type c, created_at = now, is_active = Some True\<rparr>"
    by (auto simp: create_subscription_result split: option.splits)
  with created auth parse show ?thesis
    by (simp add: route_create_subscription_def respond_def response_model_def)
qed

lemma route_create_subscription_failed:
  assumes auth: "authenticate rq = Inr token"
    and parse: "SubscriptionCreate_parse lib body = Inr c"
    and failed: "create_subscription lib now c db = (Inl err, db)"
  shows "route_create_subscription lib now rq body db = (Inl err, db)"
  using auth parse failed
  by (simp add: route_create_subscription_def respond_def)

lemma route_create_subscription_success:
  "route_create_subscription lib now rq body db = (Inr r, db') \<Longrightarrow>
   \<exists>s. db' = db @ [s] \<and> sub_id s \<notin> sub_id ` set db \<and> created_at s = now
       \<and> is_active s = Some True
       \<and> r = \<lparr>resp_id = sub_id s, resp_notification_url = notification_url s,
               resp_event_type = event_type s, resp_created_at = now, resp_is_active = True\<rparr>"
  using new_rowid_fresh [of lib "map sub_id db"]
  by (auto simp: route_create_subscription_def respond_def create_subscription_def
        response_model_def Let_def split: sum.splits option.splits)

text \<open>
  C2. For an authenticated request: a body without \<^verbatim>\<open>notification_url\<close> is
  rejected and the table is left as it was. A body whose \<^verbatim>\<open>notification_url\<close> is
  any string at all (and whose \<^verbatim>\<open>event_type\<close> is missing, null or a string) passes
  validation, and the create then succeeds whenever every stored id is below the largest
  row id: it appends the row with the next id (1 on an empty table, otherwise one more
  than the largest stored id), \<^verbatim>\<open>created_at\<close> the current time and
  \<^verbatim>\<open>is_active\<close> true, and returns that row. Once the largest row id is stored, it
  does the same with the id that the engine draws at random, when that id is positive,
  a row id and not in use, and otherwise fails with a server error and leaves the table
  as it was. Whenever the route succeeds, it has appended one row to the table, with
  an id that no stored row had, with \<^verbatim>\<open>created_at\<close> the current time and
  \<^verbatim>\<open>is_active\<close> true, it has returned that row, and a listing of the table holds
  it.
\<close>

theorem create_subscription_contract:
  assumes auth: "authenticate rq = Inr token"
  shows "(dict_of kvs ''notification_url'' = None \<longrightarrow>
            route_create_subscription lib now rq (JObject kvs) db
              = (Inl RequestValidationError, db))
       \<and> (dict_of kvs ''notification_url'' = Some (JStr url)
            \<and> dict_of kvs ''event_type'' = ev
            \<and> (ev = None \<or> ev = Some JNull \<or> ev = Some (JStr e))
            \<and> (\<forall>x\<in>set db. sub_id x < MAX_ROWID)
            \<and> i = (if db = [] then 1 else Max (sub_id ` set db) + 1) \<longrightarrow>
            i \<notin> sub_id ` set db
            \<and> route_create_subscription lib now rq (JObject kvs) db =
                (Inr \<lparr>resp_id = i, resp_notification_url = url,
                      resp_event_type = (if ev = Some (JStr e) then Some e else None),
                      resp_created_at = now, resp_is_active = True\<rparr>,
                 db @ [\<lparr>sub_id = i, notification_url = url,
                         event_type = (if ev = Some (JStr e) then Some e else None),
                         created_at = now, is_active = Some True\<rparr>]))
       \<and> (dict_of kvs ''notification_url'' = Some (JStr url)
            \<and> dict_of kvs ''event_type'' = ev
            \<and> (ev = None \<or> ev = Some JNull \<or> ev = Some (JStr e))
            \<and> \<not> (\<forall>x\<in>set db. sub_id x < MAX_ROWID)
            \<and> random_rowid lib (map sub_id db) = Some j
            \<and> 0 < j \<and> j \<le> MAX_ROWID \<and> j \<notin> sub_id ` set db \<longrightarrow>
            route_create_subscription lib now rq (JObject kvs) db =
                (Inr \<lparr>resp_id = j, resp_notification_url = url,
                      resp_event_type = (if ev = Some (JStr e) then Some e else None),
                      resp_created_at = now, resp_is_active = True\<rparr>,
                 db @ [\<lparr>sub_id = j, notification_url = url,
                         event_type = (if ev = Some (JStr e) then Some e else None),
                         created_at = now, is_active = Some True\<rparr>]))
       \<and> (dict_of kvs ''notification_url'' = Some (JStr url)
            \<and> dict_of kvs ''event_type'' = ev
            \<and> (ev = None \<or> ev = Some JNull \<or> ev = Some (JStr e))
            \<and> \<not> (\<forall>x\<in>set db. sub_id x < MAX_ROWID)
            \<and> \<not> (\<exists>r. random_rowid lib (map sub_id db) = Some r
                      \<and> 0 < r \<and> r \<le> MAX_ROWID \<and> r \<notin> sub_id ` set db) \<longrightarrow>
            route_create_subscription lib now rq (JObject kvs) db
              = (Inl InternalServerError, db))
       \<and> (route_create_subscription lib now rq body db = (Inr r, db') \<longrightarrow>
            (\<exists>s. db' = db @ [s] \<and> sub_id s \<notin> sub_id ` set db \<and> created_at s = now
               \<and> is_active s = Some True
               \<and> s \<in> set (list_subscriptions db')
               \<and> r = \<lparr>resp_id = sub_id s, resp_notification_url = notification_url s,
                       resp_event_type = event_type s, resp_created_at = now,
                       resp_is_active = True\<rparr>))"
proof (intro conjI impI)
  assume "dict_of kvs ''notification_url'' = None"
  with auth show "route_create_subscription lib now rq (JObject kvs) db
      = (Inl RequestValidationError, db)"
    by (simp add: route_create_subscription_def SubscriptionCreate_parse_def required_field_def)
next
  assume h: "dict_of kvs ''notification_url'' = Some (JStr url)
            \<and> dict_of kvs ''event_type'' = ev
            \<and> (ev = None \<or> ev = Some JNull \<or> ev = Some (JStr e))
            \<and> (\<forall>x\<in>set db. sub_id x < MAX_ROWID)
            \<and> i = (if db = [] then 1 else Max (sub_id ` set db) + 1)"
  then have parse: "SubscriptionCreate_parse lib (JObject kvs)
     = Inr \<lparr>create_notification_url = url,
            create_event_type = (if ev = Some (JStr e) then Some e else None)\<rparr>"
    using SubscriptionCreate_parse_str [of kvs url ev e lib] by blast
  from h have small: "\<forall>x\<in>set db. sub_id x < MAX_ROWID" by blast
  from create_subscription_below_max [OF small] h obtain s where
    s: "create_subscription lib now
          \<lparr>create_notification_url = url,
           create_event_type = (if ev = Some (JStr e) then Some e else None)\<rparr> db
        = (Inr s, db @ [s])" "sub_id s = i"
    by blast
  from s(1) have "fst (create_subscription lib now
          \<lparr>create_notification_url = url,
           create_event_type = (if ev = Some (JStr e) then Some e else None)\<rparr> db) = Inr s"
    by simp
  from create_subscription_fresh [OF this] s(2)
  show "i \<notin> sub_id ` set db" by simp
  from route_create_subscription_parsed [OF auth parse s(1)] s(2)
  show "route_create_subscription lib now rq (JObject kvs) db =
                (Inr \<lparr>resp_id = i, resp_notification_url = url,
                      resp_event_type = (if ev = Some (JStr e) then Some e else None),
                      resp_created_at = now, resp_is_active = True\<rparr>,
                 db @ [\<lparr>sub_id = i, notification_url = url,
                         event_type = (if ev = Some (JStr e) then Some e else None),
                         created_at = now, is_active = Some True\<rparr>])"
    by simp
next
  assume h: "dict_of kvs ''notification_url'' = Some (JStr url)
            \<and> dict_of kvs ''event_type'' = ev
            \<and> (ev = None \<or> ev = Some JNull \<or> ev = Some (JStr e))
            \<and> \<not> (\<forall>x\<in>set db. sub_id x < MAX_ROWID)
            \<and> random_rowid lib (map sub_id db) = Some j
            \<and> 0 < j \<and> j \<le> MAX_ROWID \<and> j \<notin> sub_id ` set db"
  then have parse: "SubscriptionCreate_parse lib (JObject kvs)
     = Inr \<lparr>create_notification_url = url,
            create_event_type = (if ev = Some (JStr e) then Some e else None)\<rparr>"
    using SubscriptionCreate_parse_str [of kvs url ev e lib] by blast
  from h create_subscription_at_max_drawn [of db lib j now] obtain s where
    s: "create_subscription lib now
          \<lparr>create_notification_url = url,
           create_event_type = (if ev = Some (JStr e) then Some e else None)\<rparr> db
        = (Inr s, db @ [s])" "sub_id s = j"
    by blast
  from route_create_subscription_parsed [OF auth parse s(1)] s(2)
  show "route_create_subscription lib now rq (JObject kvs) db =
                (Inr \<lparr>resp_id = j, resp_notification_url = url,
                      resp_event_type = (if ev = Some (JStr e) then Some e else None),
                      resp_created_at = now, resp_is_active = True\<rparr>,
                 db @ [\<lparr>sub_id = j, notification_url = url,
                         event_type = (if ev = Some (JStr e) then Some e else None),
                         created_at = now, is_active = Some True\<rparr>])"
    by simp
next
  assume h: "dict_of kvs ''notification_url'' = Some (JStr url)
            \<and> dict_of kvs ''event_type'' = ev
            \<and> (ev = None \<or> ev = Some JNull \<or> ev = Some (JStr e))
            \<and> \<not> (\<forall>x\<in>set db. sub_id x < MAX_ROWID)
            \<and> \<not> (\<exists>r. random_rowid lib (map sub_id db) = Some r
                      \<and> 0 < r \<and> r \<le> MAX_ROWID \<and> r \<notin> sub_id ` set db)"
  then have parse: "SubscriptionCreate_parse lib (JObject kvs)
     = Inr \<lparr>create_notification_url = url,
            create_event_type = (if ev = Some (JStr e) then Some e else None)\<rparr>"
    using SubscriptionCreate_parse_str [of kvs url ev e lib] by blast
  from h create_subscription_at_max_full [of db lib now]
  have "create_subscription lib now
          \<lparr>create_notification_url = url,
           create_event_type = (if ev = Some (JStr e) then Some e else None)\<rparr> db
        = (Inl InternalServerError, db)"
    by blast
  from route_create_subscription_failed [OF auth parse this]
  show "route_create_subscription lib now rq (JObject kvs) db = (Inl InternalServerError, db)" .
next
  assume "route_create_subscription lib now rq body db = (Inr r, db')"
  from route_create_subscription_success [OF this]
  show "\<exists>s. db' = db @ [s] \<and> sub_id s \<notin> sub_id ` set db \<and> created_at s = now
               \<and> is_active s = Some True
               \<and> s \<in> set (list_subscriptions db')
               \<and> r = \<lparr>resp_id = sub_id s, resp_notification_url = notification_url s,
                       resp_event_type = event_type s, resp_created_at = now,
                       resp_is_active = True\<rparr>"
    by (auto simp: list_subscriptions_def)
qed

theorem create_subscription_contract_witness:
  "route_create_subscription strict_library 7 authorized_request
       (JObject [(''event_type'', JStr ''test'')]) [stored_hook, paused_hook]
     = (Inl RequestValidationError, [stored_hook, paused_hook])
   \<and> route_create_subscription strict_library 7 authorized_request
       (JObject [(''notification_url'', JStr ''not a url'')]) [stored_hook, paused_hook]
     = (Inr \<lparr>resp_id = 3, resp_notification_url = ''not a url'', resp_event_type = None,
             resp_created_at = 7, resp_is_active = True\<rparr>,
        [stored_hook, paused_hook,
         \<lparr>sub_id = 3, notification_url = ''not a url'', event_type = None,
          created_at = 7, is_active = Some True\<rparr>])
   \<and> route_create_subscription drawing_library 7 authorized_request
       (JObject [(''notification_url'', JStr ''not a url'')]) [stored_hook, last_hook]
     = (Inr \<lparr>resp_id = 7, resp_notification_url = ''not a url'', resp_event_type = None,
             resp_created_at = 7, resp_is_active = True\<rparr>,
        [stored_hook, last_hook,
         \<lparr>sub_id = 7, notification_url = ''not a url'', event_type = None,
          created_at = 7, is_active = Some True\<rparr>])
   \<and> route_create_subscription strict_library 7 authorized_request
       (JObject [(''notification_url'', JStr ''not a url'')]) [stored_hook, last_hook]
     = (Inl InternalServerError, [stored_hook, last_hook])"
proof -
  note contract = create_subscription_contract [OF authenticate_authorized_request]
  have a: "route_create_subscription strict_library 7 authorized_request
       (JObject [(''event_type'', JStr ''test'')]) [stored_hook, paused_hook]
     = (Inl RequestValidationError, [stored_hook, paused_hook])"
    using contract [where kvs = "[(''event_type'', JStr ''test'')]" and lib = strict_library
                 and now = 7 and db = "[stored_hook, paused_hook]", THEN conjunct1]
    by (simp add: dict_of_def)
  have b: "route_create_subscription strict_library 7 authorized_request
       (JObject [(''notification_url'', JStr ''not a url'')]) [stored_hook, paused_hook]
     = (Inr \<lparr>resp_id = 3, resp_notification_url = ''not a url'', resp_event_type = None,
             resp_created_at = 7, resp_is_active = True\<rparr>,
        [stored_hook, paused_hook,
         \<lparr>sub_id = 3, notification_url = ''not a url'', event_type = None,
          created_at = 7, is_active = Some True\<rparr>])"
    using contract [where kvs = "[(''notification_url'', JStr ''not a url'')]"
                 and url = "''not a url''" and ev = None and i = 3
                 and lib = strict_library and now = 7 and db = "[stored_hook, paused_hook]",
               THEN conjunct2, THEN conjunct1]
    by (simp add: dict_of_def stored_hook_def paused_hook_def MAX_ROWID_def)
  have c: "route_create_subscription drawing_library 7 authorized_request
       (JObject [(''notification_url'', JStr ''not a url'')]) [stored_hook, last_hook]
     = (Inr \<lparr>resp_id = 7, resp_notification_url = ''not a url'', resp_event_type = None,
             resp_created_at = 7, resp_is_active = True\<rparr>,
        [stored_hook, last_hook,
         \<lparr>sub_id = 7, notification_url = ''not a url'', event_type = None,
          created_at = 7, is_active = Some True\<rparr>])"
    using contract [where kvs = "[(''notification_url'', JStr ''not a url'')]"
                 and url = "''not a url''" and ev = None and j = 7
                 and lib = drawing_library and now = 7 and db = "[stored_hook, last_hook]",
               THEN conjunct2, THEN conjunct2, THEN conjunct1]
    by (simp add: dict_of_def stored_hook_def last_hook_def MAX_ROWID_def drawing_library_def)
  have d: "route_create_subscription strict_library 7 authorized_request
       (JObject [(''notification_url'', JStr ''not a url'')]) [stored_hook, last_hook]
     = (Inl InternalServerError, [stored_hook, last_hook])"
    using contract [where kvs = "[(''notification_url'', JStr ''not a url'')]"
                 and url = "''not a url''" and ev = None
                 and lib = strict_library and now = 7 and db = "[stored_hook, last_hook]",
               THEN conjunct2, THEN conjunct2, THEN conjunct2, THEN conjunct1]
    by (simp add: dict_of_def stored_hook_def last_hook_def MAX_ROWID_def strict_library_def)
  from a b c d show ?thesis by simp
qed

section \<open>Properties of the registry: partial update\<close>

lemma optional_field_unset:
  "obj key = None \<Longrightarrow> optional_field validator obj key = Inr None"
  by (simp add: optional_field_def)

lemma SubscriptionUpdate_parse_unset:
  "SubscriptionUpdate_parse lib (JObject kvs) = Inr u \<Longrightarrow>
     (dict_of kvs ''notification_url'' = None \<longrightarrow> update_notification_url u = None)
   \<and> (dict_of kvs ''event_type'' = None \<longrightarrow> update_event_type u = None)
   \<and> (dict_of kvs ''is_active'' = None \<longrightarrow> update_is_active u = None)"
  by (auto simp: SubscriptionUpdate_parse_def optional_field_def
        split: sum.splits option.splits if_splits)

lemma SubscriptionUpdate_parse_null_event_type:
  "SubscriptionUpdate_parse lib (JObject kvs) = Inr u \<Longrightarrow>
     dict_of kvs ''event_type'' = Some JNull \<Longrightarrow> update_event_type u = Some None"
  by (auto simp: SubscriptionUpdate_parse_def optional_field_def
        split: sum.splits option.splits if_splits)

lemma setattrs_frame:
  "sub_id (setattrs u s) = sub_id s \<and> created_at (setattrs u s) = created_at s
   \<and> (update_notification_url u = None \<longrightarrow> notification_url (setattrs u s) = notification_url s)
   \<and> (update_event_type u = None \<longrightarrow> event_type (setattrs u s) = event_type s)
   \<and> (update_is_active u = None \<longrightarrow> is_active (setattrs u s) = is_active s)"
  by (simp add: setattrs_def)

lemma update_subscription_frame:
  "list_all2 (\<lambda>s s'. sub_id s' = sub_id s \<and> created_at s' = created_at s
       \<and> (sub_id s \<noteq> sid \<longrightarrow> s' = s)
       \<and> (update_notification_url u = None \<longrightarrow> notification_url s' = notification_url s)
       \<and> (update_event_type u = None \<longrightarrow> event_type s' = event_type s)
       \<and> (update_is_active u = None \<longrightarrow> is_active s' = is_active s))
     db (snd (update_subscription sid u db))"
  using setattrs_frame [of u]
  by (auto simp: update_subscription_def list_all2_map2 list_all2_same
        split: sum.splits option.splits)

lemma respond_snd: "snd (respond r) = snd r"
  by (simp add: respond_def split: sum.splits)

lemma respond_Inr: "fst (respond r) = Inr x \<Longrightarrow> \<exists>s. fst r = Inr s \<and> response_model s = Inr x"
  by (auto simp: respond_def split: sum.splits)

lemma route_update_subscription_frame:
  "list_all2 (\<lambda>s s'. sub_id s' = sub_id s \<and> created_at s' = created_at s
       \<and> (sub_id s \<noteq> sid \<longrightarrow> s' = s)
       \<and> (dict_of kvs ''notification_url'' = None \<longrightarrow> notification_url s' = notification_url s)
       \<and> (dict_of kvs ''event_type'' = None \<longrightarrow> event_type s' = event_type s)
       \<and> (dict_of kvs ''is_active'' = None \<longrightarrow> is_active s' = is_active s))
     db (snd (route_update_subscription lib rq sid (JObject kvs) db))"
proof (cases "authenticate rq")
  case (Inl e)
  then show ?thesis by (simp add: route_update_subscription_def list_all2_same)
next
  case auth: (Inr token)
  show ?thesis
  proof (cases "SubscriptionUpdate_parse lib (JObject kvs)")
    case (Inl e)
    with auth show ?thesis by (simp add: route_update_subscription_def list_all2_same)
  next
    case (Inr u)
    from SubscriptionUpdate_parse_unset [OF Inr] update_subscription_frame [of sid u db]
    have "list_all2 (\<lambda>s s'. sub_id s' = sub_id s \<and> created_at s' = created_at s
       \<and> (sub_id s \<noteq> sid \<longrightarrow> s' = s)
       \<and> (dict_of kvs ''notification_url'' = None \<longrightarrow> notification_url s' = notification_url s)
       \<and> (dict_of kvs ''event_type'' = None \<longrightarrow> event_type s' = event_type s)
       \<and> (dict_of kvs ''is_active'' = None \<longrightarrow> is_active s' = is_active s))
     db (snd (update_subscription sid u db))"
      by (auto elim!: list_all2_mono)
    with auth Inr show ?thesis by (simp add: route_update_subscription_def respond_snd)
  qed
qed

lemma route_update_event_type_only:
  assumes auth: "authenticate rq = Inr token"
    and ex: "find (\<lambda>s. sub_id s = sid) db = Some old"
    and url: "dict_of kvs ''notification_url'' = None"
    and act: "dict_of kvs ''is_active'' = None"
    and et: "dict_of kvs ''event_type'' = Some v"
            "v = JNull \<and> new = None \<or> v = JStr e \<and> new = Some e"
  shows "route_update_subscription lib rq sid (JObject kvs) db
     = (response_model (old\<lparr>event_type := new\<rparr>),
        map (\<lambda>s. if sub_id s = sid then s\<lparr>event_type := new\<rparr> else s) db)"
proof -
  from et have o: "optional_field (str_validator lib) (dict_of kvs) ''event_type'' = Inr (Some new)"
    by (auto simp: optional_field_def str_validator_def)
  have p: "SubscriptionUpdate_parse lib (JObject kvs)
     = Inr \<lparr>update_notification_url = None, update_event_type = Some new,
            update_is_active = None\<rparr>"
    by (simp add: SubscriptionUpdate_parse_def o optional_field_unset url act)
  have s: "\<And>s. setattrs \<lparr>update_notification_url = None, update_event_type = Some new,
                          update_is_active = None\<rparr> s
      = s\<lparr>event_type := new\<rparr>"
    by (simp add: setattrs_def)
  show ?thesis
    by (simp add: route_update_subscription_def auth p update_subscription_def
          query_first_found [OF ex] s respond_def)
qed

lemma route_update_null_event_type_general:
  assumes ok: "fst (route_update_subscription lib rq sid (JObject kvs) db) = Inr r"
    and null: "dict_of kvs ''event_type'' = Some JNull"
  shows "resp_event_type r = None
       \<and> list_all (\<lambda>s. sub_id s = sid \<longrightarrow> event_type s = None)
           (snd (route_update_subscription lib rq sid (JObject kvs) db))"
proof -
  from ok obtain token where auth: "authenticate rq = Inr token"
    by (cases "authenticate rq") (auto simp: route_update_subscription_def)
  from ok auth obtain u where p: "SubscriptionUpdate_parse lib (JObject kvs) = Inr u"
    by (cases "SubscriptionUpdate_parse lib (JObject kvs)")
       (auto simp: route_update_subscription_def)
  from SubscriptionUpdate_parse_null_event_type [OF p null]
  have u: "update_event_type u = Some None" .
  then have ev: "\<And>s. event_type (setattrs u s) = None" by (simp add: setattrs_def)
  from ok auth p have "fst (respond (update_subscription sid u db)) = Inr r"
    by (simp add: route_update_subscription_def)
  from respond_Inr [OF this] obtain s where
    s: "fst (update_subscription sid u db) = Inr s" "response_model s = Inr r" by blast
  from s(1) obtain old where old: "query_first sid db = Inr (Some old)"
      "update_notification_url u \<noteq> Some None" "s = setattrs u old"
    by (auto simp: update_subscription_def split: sum.splits option.splits if_splits)
  from s(2) old(3) ev have r: "resp_event_type r = None"
    by (auto simp: response_model_def split: option.splits)
  from old have "snd (update_subscription sid u db)
      = map (\<lambda>s. if sub_id s = sid then setattrs u s else s) db"
    by (simp add: update_subscription_def)
  with auth p have "snd (route_update_subscription lib rq sid (JObject kvs) db)
      = map (\<lambda>s. if sub_id s = sid then setattrs u s else s) db"
    by (simp add: route_update_subscription_def respond_snd)
  with ev have "list_all (\<lambda>s. sub_id s = sid \<longrightarrow> event_type s = None)
           (snd (route_update_subscription lib rq sid (JObject kvs) db))"
    by (auto simp: list_all_iff)
  with r show ?thesis by simp
qed

lemma find_stored_hook: "find (\<lambda>s. sub_id s = 1) [stored_hook] = Some stored_hook"
  by (simp add: stored_hook_def)

text \<open>
  C4. The update route leaves every row other than the addressed one as it was, never
  changes an id or a creation time, and leaves each of \<^verbatim>\<open>notification_url\<close>,
  \<^verbatim>\<open>event_type\<close> and \<^verbatim>\<open>is_active\<close> as it was when the request body does not
  supply it. In particular a body that supplies only \<^verbatim>\<open>event_type\<close> changes that
  one field of the addressed row and returns the row so changed.
\<close>

theorem update_subscription_partial:
  "list_all2 (\<lambda>s s'. sub_id s' = sub_id s \<and> created_at s' = created_at s
       \<and> (sub_id s \<noteq> sid \<longrightarrow> s' = s)
       \<and> (dict_of kvs ''notification_url'' = None \<longrightarrow> notification_url s' = notification_url s)
       \<and> (dict_of kvs ''event_type'' = None \<longrightarrow> event_type s' = event_type s)
       \<and> (dict_of kvs ''is_active'' = None \<longrightarrow> is_active s' = is_active s))
     db (snd (route_update_subscription lib rq sid (JObject kvs) db))
   \<and> (authenticate rq = Inr token
        \<and> find (\<lambda>s. sub_id s = sid) db = Some old
        \<and> dict_of kvs ''notification_url'' = None
        \<and> dict_of kvs ''is_active'' = None
        \<and> dict_of kvs ''event_type'' = Some (JStr e) \<longrightarrow>
        route_update_subscription lib rq sid (JObject kvs) db
          = (response_model (old\<lparr>event_type := Some e\<rparr>),
             map (\<lambda>s. if sub_id s = sid then s\<lparr>event_type := Some e\<rparr> else s) db))"
  using route_update_subscription_frame [of sid kvs db lib rq]
        route_update_event_type_only [of rq token sid db old kvs "JStr e" "Some e" e lib]
  by blast

theorem update_subscription_partial_witness:
  "route_update_subscription strict_library authorized_request 1
       (JObject [(''event_type'', JStr ''renamed'')]) [stored_hook]
     = (Inr \<lparr>resp_id = 1, resp_notification_url = ''http://localhost:8001/receive'',
             resp_event_type = Some ''renamed'', resp_created_at = 0, resp_is_active = True\<rparr>,
        [\<lparr>sub_id = 1, notification_url = ''http://localhost:8001/receive'',
          event_type = Some ''renamed'', created_at = 0, is_active = Some True\<rparr>])"
  using update_subscription_partial
          [where rq = authorized_request and token = "''secret-token''" and sid = 1
             and db = "[stored_hook]" and old = stored_hook
             and kvs = "[(''event_type'', JStr ''renamed'')]" and e = "''renamed''"
             and lib = strict_library]
        authenticate_authorized_request find_stored_hook
  by (simp add: dict_of_def response_model_def) (simp add: stored_hook_def)

text \<open>
  C9. A field sent as null counts as supplied: for an authenticated request on an
  existing subscription, the body \<^verbatim>\<open>{"event_type": null}\<close> stores null as the
  \<^verbatim>\<open>event_type\<close> of the addressed row and returns the row so changed; and whatever
  else the body holds, an update that succeeds with \<^verbatim>\<open>event_type\<close> sent as null
  leaves the addressed row with a null \<^verbatim>\<open>event_type\<close>.
\<close>

theorem update_null_event_type_is_stored:
  "(authenticate rq = Inr token
      \<and> find (\<lambda>s. sub_id s = sid) db = Some old
      \<and> dict_of kvs ''notification_url'' = None
      \<and> dict_of kvs ''is_active'' = None
      \<and> dict_of kvs ''event_type'' = Some JNull \<longrightarrow>
      route_update_subscription lib rq sid (JObject kvs) db
        = (response_model (old\<lparr>event_type := None\<rparr>),
           map (\<lambda>s. if sub_id s = sid then s\<lparr>event_type := None\<rparr> else s) db))
   \<and> (fst (route_update_subscription lib rq sid (JObject kvs) db) = Inr r
        \<and> dict_of kvs ''event_type'' = Some JNull \<longrightarrow>
        resp_event_type r = None
        \<and> list_all (\<lambda>s. sub_id s = sid \<longrightarrow> event_type s = None)
            (snd (route_update_subscription lib rq sid (JObject kvs) db)))"
  using route_update_event_type_only [of rq token sid db old kvs JNull None _ lib]
        route_update_null_event_type_general [of lib rq sid kvs db r]
  by blast

theorem update_null_event_type_is_stored_witness:
  "route_update_subscription strict_library authorized_request 1
       (JObject [(''event_type'', JNull)]) [stored_hook]
     = (Inr \<lparr>resp_id = 1, resp_notification_url = ''http://localhost:8001/receive'',
             resp_event_type = None, resp_created_at = 0, resp_is_active = True\<rparr>,
        [\<lparr>sub_id = 1, notification_url = ''http://localhost:8001/receive'',
          event_type = None, created_at = 0, is_active = Some True\<rparr>])"
  using update_null_event_type_is_stored
          [where rq = authorized_request and token = "''secret-token''" and sid = 1
             and db = "[stored_hook]" and old = stored_hook
             and kvs = "[(''event_type'', JNull)]" and lib = strict_library]
        authenticate_authorized_request find_stored_hook
  by (simp add: dict_of_def response_model_def) (simp add: stored_hook_def)

section \<open>Properties of the registry: delivery\<close>




text \<open>
  C6, as the code has it. For an authenticated request on a stored subscription whose
  \<^verbatim>\<open>is_active\<close> is true, delivery makes exactly one call of \<^verbatim>\<open>requests.post\<close>,
  to the stored \<^verbatim>\<open>notification_url\<close>, with the body \<^verbatim>\<open>status\<close> "success",
  \<^verbatim>\<open>subscription_id\<close> the id, \<^verbatim>\<open>event_type\<close> the stored one and
  \<^verbatim>\<open>timestamp\<close> the current time, and leaves the table unchanged. If the call raises
  a \<^verbatim>\<open>RequestException\<close>, or answers with a status from 400 to 599, delivery fails
  with status 500 and a detail that carries the text of the error; if the call raises
  any other exception, delivery fails with a server error without that detail; on any
  other status, those from 300 to 399 included, it returns the acknowledgment.
\<close>

theorem notify_posts_once:
  assumes auth: "authenticate rq = Inr token"
    and ex: "find (\<lambda>s. sub_id s = sid) db = Some s"
    and act: "is_active s = Some True"
  shows "snd (route_notify_subscription lib now post rq sid db)
           = (db, [(notification_url s,
                    JObject [(''status'', JStr ''success''),
                             (''subscription_id'', JInt sid),
                             (''event_type'',
                                (case event_type s of None \<Rightarrow> JNull | Some e \<Rightarrow> JStr e)),
                             (''timestamp'', JStr (isoformat lib now))])])
       \<and> (post (notification_url s) (notification_payload lib now sid s) = RequestException msg
            \<longrightarrow> fst (route_notify_subscription lib now post rq sid db)
              = Inl (HTTPException 500 (''Notification failed: '' @ msg)))
       \<and> (post (notification_url s) (notification_payload lib now sid s) = Response code msg
            \<and> 400 \<le> code \<and> code < 600
            \<longrightarrow> fst (route_notify_subscription lib now post rq sid db)
              = Inl (HTTPException 500 (''Notification failed: '' @ msg)))
       \<and> (post (notification_url s) (notification_payload lib now sid s) = OtherException msg
            \<longrightarrow> fst (route_notify_subscription lib now post rq sid db)
              = Inl InternalServerError)
       \<and> (post (notification_url s) (notification_payload lib now sid s) = Response code msg
            \<and> \<not> (400 \<le> code \<and> code < 600)
            \<longrightarrow> fst (route_notify_subscription lib now post rq sid db)
              = Inr ''Notification sent successfully'')"
  using auth query_first_found [OF ex] act
  by (auto simp: route_notify_subscription_def notify_subscription_def Let_def
        notification_payload_def split: post_outcome.splits)

theorem notify_posts_once_witness:
  "route_notify_subscription strict_library 5 (\<lambda>url body. Response 200 []) authorized_request 1
       [stored_hook]
     = (Inr ''Notification sent successfully'', [stored_hook],
        [(''http://localhost:8001/receive'',
          JObject [(''status'', JStr ''success''), (''subscription_id'', JInt 1),
                   (''event_type'', JStr ''test''),
                   (''timestamp'', JStr ''2024-01-01T00:00:00'')])])
   \<and> fst (route_notify_subscription strict_library 5
            (\<lambda>url body. Response 404 ''404 Client Error'') authorized_request 1 [stored_hook])
     = Inl (HTTPException 500 ''Notification failed: 404 Client Error'')
   \<and> fst (route_notify_subscription strict_library 5
            (\<lambda>url body. RequestException ''Connection refused'') authorized_request 1
            [stored_hook])
     = Inl (HTTPException 500 ''Notification failed: Connection refused'')
   \<and> fst (route_notify_subscription strict_library 5
            (\<lambda>url body. OtherException ''label too long'') authorized_request 1
            [stored_hook])
     = Inl InternalServerError"
proof -
  have ex: "find (\<lambda>s. sub_id s = 1) [stored_hook] = Some stored_hook"
    by (simp add: stored_hook_def)
  have act: "is_active stored_hook = Some True"
    by (simp add: stored_hook_def)
  note ok = notify_posts_once
    [OF authenticate_authorized_request ex act,
     where lib = strict_library and now = 5 and post = "\<lambda>url body. Response 200 []"
       and code = 200 and msg = "[]"]
  note refused = notify_posts_once
    [OF authenticate_authorized_request ex act,
     where lib = strict_library and now = 5
       and post = "\<lambda>url body. Response 404 ''404 Client Error''"
       and code = 404 and msg = "''404 Client Error''"]
  note down = notify_posts_once
    [OF authenticate_authorized_request ex act,
     where lib = strict_library and now = 5
       and post = "\<lambda>url body. RequestException ''Connection refused''"
       and msg = "''Connection refused''"]
  note other = notify_posts_once
    [OF authenticate_authorized_request ex act,
     where lib = strict_library and now = 5
       and post = "\<lambda>url body. OtherException ''label too long''"
       and msg = "''label too long''"]
  have a: "route_notify_subscription strict_library 5 (\<lambda>url body. Response 200 [])
       authorized_request 1 [stored_hook]
     = (Inr ''Notification sent successfully'', [stored_hook],
        [(''http://localhost:8001/receive'',
          JObject [(''status'', JStr ''success''), (''subscription_id'', JInt 1),
                   (''event_type'', JStr ''test''),
                   (''timestamp'', JStr ''2024-01-01T00:00:00'')])])"
    using ok by (simp add: prod_eq_iff stored_hook_def strict_library_def)
  have b: "fst (route_notify_subscription strict_library 5
            (\<lambda>url body. Response 404 ''404 Client Error'') authorized_request 1 [stored_hook])
     = Inl (HTTPException 500 ''Notification failed: 404 Client Error'')"
    using refused by simp
  have c: "fst (route_notify_subscription strict_library 5
            (\<lambda>url body. RequestException ''Connection refused'') authorized_request 1
            [stored_hook])
     = Inl (HTTPException 500 ''Notification failed: Connection refused'')"
    using down by simp
  have d: "fst (route_notify_subscription strict_library 5
            (\<lambda>url body. OtherException ''label too long'') authorized_request 1
            [stored_hook])
     = Inl InternalServerError"
    using other by simp
  from a b c d show ?thesis by simp
qed

text \<open>
  C6, as the specification states it, fails: 304 is not a success status, and when the
  call answers with it delivery returns the acknowledgment.
\<close>

theorem notify_status_304_acknowledged:
  "route_notify_subscription strict_library 5 (\<lambda>url body. Response 304 []) authorized_request 1
       [stored_hook]
     = (Inr ''Notification sent successfully'', [stored_hook],
        [(''http://localhost:8001/receive'',
          JObject [(''status'', JStr ''success''), (''subscription_id'', JInt 1),
                   (''event_type'', JStr ''test''),
                   (''timestamp'', JStr ''2024-01-01T00:00:00'')])])"
  by (simp add: route_notify_subscription_def authenticate_authorized_request
        notify_subscription_def query_first_def notification_payload_def Let_def
        stored_hook_def strict_library_def)

section \<open>Registry and listener together\<close>

text \<open>
  C10. For a stored active subscription whose \<^verbatim>\<open>event_type\<close> is null, the one body
  that delivery posts carries \<^verbatim>\<open>event_type\<close> null, and the listener's ingestion
  rejects that body with a validation error and leaves its log as it was. (The same
  body with a string for \<^verbatim>\<open>event_type\<close> is accepted once the timestamp reads as a
  datetime.)
\<close>

theorem null_event_type_rejected_by_listener:
  assumes ex: "find (\<lambda>s. sub_id s = sid) db = Some s"
    and act: "is_active s = Some True"
  shows "(event_type s = None \<longrightarrow>
            snd (snd (notify_subscription lib now post sid db))
              = [(notification_url s,
                  JObject [(''status'', JStr ''success''),
                           (''subscription_id'', JInt sid),
                           (''event_type'', JNull),
                           (''timestamp'', JStr (isoformat lib now))])]
            \<and> receive_notification lib' now'
                (JObject [(''status'', JStr ''success''),
                          (''subscription_id'', JInt sid),
                          (''event_type'', JNull),
                          (''timestamp'', JStr (isoformat lib now))]) log
              = (Inl RequestValidationError, log))
       \<and> (event_type s = Some e
            \<and> datetime_validator lib' (JStr (isoformat lib now)) = Some ts \<longrightarrow>
            receive_notification lib' now' (notification_payload lib now sid s) log
              = (Inr ''Notification processed successfully'',
                 log @ [\<lparr>received_at = isoformat lib' now',
                          notification = \<lparr>status = ''success'', subscription_id = sid,
                                           notification_event_type = e, timestamp = ts\<rparr>\<rparr>]))"
  using query_first_found [OF ex] act
  by (auto simp: notify_subscription_def Let_def notification_payload_def
        receive_notification_def Notification_parse_def required_field_def dict_of_def
        str_validator_def int_validator_def
        split: post_outcome.splits)

theorem null_event_type_rejected_by_listener_witness:
  "snd (snd (notify_subscription strict_library 5 (\<lambda>url body. Response 422 []) 3 [untyped_hook]))
     = [(''http://localhost:8001/receive'',
         JObject [(''status'', JStr ''success''), (''subscription_id'', JInt 3),
                  (''event_type'', JNull), (''timestamp'', JStr ''2024-01-01T00:00:00'')])]
   \<and> receive_notification strict_library 6
        (JObject [(''status'', JStr ''success''), (''subscription_id'', JInt 3),
                  (''event_type'', JNull), (''timestamp'', JStr ''2024-01-01T00:00:00'')]) []
     = (Inl RequestValidationError, [])"
proof -
  have ex: "find (\<lambda>s. sub_id s = 3) [untyped_hook] = Some untyped_hook"
    by (simp add: untyped_hook_def)
  have act: "is_active untyped_hook = Some True"
    by (simp add: untyped_hook_def)
  from null_event_type_rejected_by_listener
         [OF ex act, where lib = strict_library and now = 5
            and post = "\<lambda>url body. Response 422 []" and lib' = strict_library and now' = 6
            and log = "[]"]
  show ?thesis by (simp add: untyped_hook_def strict_library_def)
qed

end
